theory Spec2Isabelle
  imports Main
begin

section \<open>Python values, exceptions and the process\<close>

text \<open>
  The runner module \<open>pootle/runner.py\<close> is Python 2 code (\<open>raw_input\<close>,
  \<open>dict.itervalues\<close>): strings are byte strings, modelled by \<^typ>\<open>string\<close>.
  Everything the module does to its process (standard input and output, the file system, the
  environment, the settings object of the web framework) is a field of the record
  \<open>world\<close>; every function of the module takes a world and returns its result together
  with the new world. A result is \<open>Inr\<close> of the value returned or \<open>Inl\<close> of the exception
  that left the function.
\<close>

datatype pyval = PyBool bool | PyInt int | PyStr string | PyNone

datatype os_class = IOError | OSError

text \<open>
  The arguments of an \<open>IOError\<close> or \<open>OSError\<close>: the operating system raises it with an error
  number, the error text and the file name; the program raises it with one message.
\<close>

datatype env_args = OsFailure int string string | Message string

datatype exn =
    SystemExit nat
  | CommandError string
  | EnvironmentError os_class env_args
  | KeyError string
  | ValueError string
  | EOFError

type_synonym 'a res = "exn + 'a"

datatype node = File string | Dir

text \<open>
  Every effect that can be observed from outside the process is appended to the trace of the
  world, in the order in which it happens: a test of \<open>os.path.exists\<close>, a call of \<open>input\<close>
  (with its prompt), a line printed, and the file operations of \<open>init_settings\<close>.
\<close>

datatype event =
    Stat string
  | Input string
  | Output string
  | Mkdirs string
  | OpenW string
  | OpenR string
  | ReadAll string
  | WriteAll string string

type_synonym queues = "(string \<times> (string \<rightharpoonup> pyval)) list"

text \<open>
  \<open>fs\<close> maps a path to the file or directory there; \<open>environ\<close> is \<open>os.environ\<close>; \<open>stdin\<close>
  holds the lines still to be read; \<open>RQ_QUEUES\<close> is \<open>settings.RQ_QUEUES\<close>, a dictionary of
  dictionaries, kept as the list of its items; \<open>rq_workers_are_running\<close> is the answer of the
  probe of that name, which lives in \<open>pootle/core/utils/redis_rq.py\<close>; \<open>fault\<close> says which file
  operations the operating system refuses (permissions, a full disk) and with which error
  number and text; \<open>urandom\<close> is the random source; \<open>expanduser\<close>, \<open>abspath\<close> and \<open>normpath\<close>
  are the functions of \<open>os.path\<close>, which depend on the home directories and on the working
  directory of the process.
\<close>

record world =
  fs :: "string \<rightharpoonup> node"
  environ :: "string \<rightharpoonup> string"
  stdin :: "string list"
  trace :: "event list"
  RQ_QUEUES :: queues
  rq_workers_are_running :: bool
  fault :: "event \<Rightarrow> (int \<times> string) option"
  urandom :: "nat \<Rightarrow> string"
  expanduser :: "string \<Rightarrow> string"
  abspath :: "string \<Rightarrow> string"
  normpath :: "string \<Rightarrow> string"

definition log :: "event \<Rightarrow> world \<Rightarrow> world" where
  "log e w = w\<lparr>trace := trace w @ [e]\<rparr>"

subsection \<open>Builtins\<close>

definition print :: "string \<Rightarrow> world \<Rightarrow> world" where
  "print s w = log (Output s) w"

text \<open>\<open>raw_input\<close>: writes the prompt, reads one line, raises \<open>EOFError\<close> at the end of input.\<close>

definition input :: "string \<Rightarrow> world \<Rightarrow> string res \<times> world" where
  "input prompt w =
     (let w1 = log (Input prompt) w
      in case stdin w1 of
           [] \<Rightarrow> (Inl EOFError, w1)
         | l # ls \<Rightarrow> (Inr l, w1\<lparr>stdin := ls\<rparr>))"

definition lower_char :: "char \<Rightarrow> char" where
  "lower_char c =
     (let n = (of_char c :: nat) in if 65 \<le> n \<and> n \<le> 90 then char_of (n + 32) else c)"

definition upper_char :: "char \<Rightarrow> char" where
  "upper_char c =
     (let n = (of_char c :: nat) in if 97 \<le> n \<and> n \<le> 122 then char_of (n - 32) else c)"

definition lower :: "string \<Rightarrow> string" where
  "lower s = map lower_char s"

definition upper :: "string \<Rightarrow> string" where
  "upper s = map upper_char s"

text \<open>\<open>repr\<close> of a byte string, as the conversion \<open>%r\<close> prints it.\<close>

definition hexdigit :: "nat \<Rightarrow> char" where
  "hexdigit n = ''0123456789abcdef'' ! (n mod 16)"

definition repr_char :: "char \<Rightarrow> char \<Rightarrow> string" where
  "repr_char q c =
     (let n = (of_char c :: nat)
      in if c = q \<or> c = CHR 0x5C then [CHR 0x5C, c]
         else if c = CHR 0x09 then [CHR 0x5C, CHR ''t'']
         else if c = CHR 0x0A then [CHR 0x5C, CHR ''n'']
         else if c = CHR 0x0D then [CHR 0x5C, CHR ''r'']
         else if n < 32 \<or> 127 \<le> n then [CHR 0x5C, CHR ''x'', hexdigit (n div 16), hexdigit n]
         else [c])"

definition repr :: "string \<Rightarrow> string" where
  "repr s =
     (let q = (if CHR 0x27 \<in> set s \<and> CHR 0x22 \<notin> set s then CHR 0x22 else CHR 0x27)
      in [q] @ concat (map (repr_char q) s) @ [q])"

text \<open>\<open>"'%s'" % s\<close>\<close>

definition quoted :: "string \<Rightarrow> string" where
  "quoted s = [CHR 0x27] @ s @ [CHR 0x27]"

text \<open>\<open>a or b\<close> on strings: the empty string is false.\<close>

definition or_else :: "string \<Rightarrow> string \<Rightarrow> string" where
  "or_else a b = (if a = [] then b else a)"

section \<open>Forcing synchronous mode: \<open>set_sync_mode\<close>\<close>

definition redis_warning :: string where
  "redis_warning =
     [CHR 0x0A] @ ''You currently have RQ workers running.'' @ [CHR 0x0A, CHR 0x0A] @
     ''Running in synchronous mode may conflict with jobs '' @
     ''that are dispatched to your workers.'' @ [CHR 0x0A, CHR 0x0A] @
     ''It is safer to stop any workers before using synchronous '' @
     ''commands.'' @ [CHR 0x0A, CHR 0x0A]"

text \<open>The loop \<open>for q in settings.RQ_QUEUES.itervalues(): q['ASYNC'] = False\<close>.\<close>

fun set_async_false :: "queues \<Rightarrow> queues" where
  "set_async_false [] = []"
| "set_async_false ((name, q) # qs) = (name, q(''ASYNC'' \<mapsto> PyBool False)) # set_async_false qs"

definition update_queues :: "world \<Rightarrow> unit res \<times> world" where
  "update_queues w = (Inr (), w\<lparr>RQ_QUEUES := set_async_false (RQ_QUEUES w)\<rparr>)"

definition set_sync_mode :: "bool \<Rightarrow> world \<Rightarrow> unit res \<times> world" where
  "set_sync_mode noinput w =
     (if rq_workers_are_running w then
        if noinput then update_queues (print (''Warning: '' @ redis_warning) w)
        else
          case input (redis_warning @ ''Do you wish to proceed? [Ny] '') w of
            (Inl e, w1) \<Rightarrow> (Inl e, w1)
          | (Inr resp, w1) \<Rightarrow>
              if resp \<notin> set [''y'', ''yes'']
              then (Inl (SystemExit 2), print ''RQ workers running, not proceeding.'' w1)
              else update_queues w1
      else update_queues w)"

section \<open>The file system\<close>

text \<open>
  A path names its entry as it is written (two spellings of one file are two paths). Each
  operation is appended to the trace before it is tried. An operation fails when the world's
  \<open>fault\<close> refuses it, and where the entry it finds does not allow it: \<open>os.makedirs\<close> raises
  \<open>OSError\<close>, \<open>open\<close>, \<open>read\<close> and \<open>write\<close> raise \<open>IOError\<close>, each with the error number, the
  error text and the path. \<open>makedirs\<close> records the directory it was asked for.
\<close>

definition path_exists :: "string \<Rightarrow> world \<Rightarrow> bool \<times> world" where
  "path_exists p w = (fs w p \<noteq> None, log (Stat p) w)"

definition makedirs :: "string \<Rightarrow> world \<Rightarrow> unit res \<times> world" where
  "makedirs d w =
     (let w1 = log (Mkdirs d) w
      in case fault w (Mkdirs d) of
           Some (n, s) \<Rightarrow> (Inl (EnvironmentError OSError (OsFailure n s d)), w1)
         | None \<Rightarrow>
             if fs w d \<noteq> None
             then (Inl (EnvironmentError OSError (OsFailure 17 ''File exists'' d)), w1)
             else (Inr (), w1\<lparr>fs := (fs w1)(d \<mapsto> Dir)\<rparr>))"

text \<open>\<open>open(p, 'w')\<close>: creates the file, or empties it.\<close>

definition open_w :: "string \<Rightarrow> world \<Rightarrow> unit res \<times> world" where
  "open_w p w =
     (let w1 = log (OpenW p) w
      in case fault w (OpenW p) of
           Some (n, s) \<Rightarrow> (Inl (EnvironmentError IOError (OsFailure n s p)), w1)
         | None \<Rightarrow>
             if fs w p = Some Dir
             then (Inl (EnvironmentError IOError (OsFailure 21 ''Is a directory'' p)), w1)
             else (Inr (), w1\<lparr>fs := (fs w1)(p \<mapsto> File [])\<rparr>))"

definition open_r :: "string \<Rightarrow> world \<Rightarrow> unit res \<times> world" where
  "open_r p w =
     (let w1 = log (OpenR p) w
      in case fault w (OpenR p) of
           Some (n, s) \<Rightarrow> (Inl (EnvironmentError IOError (OsFailure n s p)), w1)
         | None \<Rightarrow>
             (case fs w p of
                None \<Rightarrow>
                  (Inl (EnvironmentError IOError (OsFailure 2 ''No such file or directory'' p)), w1)
              | Some Dir \<Rightarrow>
                  (Inl (EnvironmentError IOError (OsFailure 21 ''Is a directory'' p)), w1)
              | Some (File c) \<Rightarrow> (Inr (), w1)))"

definition read_all :: "string \<Rightarrow> world \<Rightarrow> string res \<times> world" where
  "read_all p w =
     (let w1 = log (ReadAll p) w
      in case fault w (ReadAll p) of
           Some (n, s) \<Rightarrow> (Inl (EnvironmentError IOError (OsFailure n s p)), w1)
         | None \<Rightarrow>
             (case fs w p of
                Some (File c) \<Rightarrow> (Inr c, w1)
              | _ \<Rightarrow> (Inl (EnvironmentError IOError (OsFailure 9 ''Bad file descriptor'' p)), w1)))"

text \<open>The one \<open>write\<close> to a file that \<open>open_w\<close> has just emptied.\<close>

definition write_all :: "string \<Rightarrow> string \<Rightarrow> world \<Rightarrow> unit res \<times> world" where
  "write_all p s w =
     (let w1 = log (WriteAll p s) w
      in case fault w (WriteAll p s) of
           Some (n, e) \<Rightarrow> (Inl (EnvironmentError IOError (OsFailure n e p)), w1)
         | None \<Rightarrow> (Inr (), w1\<lparr>fs := (fs w1)(p \<mapsto> File s)\<rparr>))"

text \<open>\<open>posixpath.dirname\<close>\<close>

definition rstrip_slash :: "string \<Rightarrow> string" where
  "rstrip_slash s = rev (dropWhile (\<lambda>c. c = CHR ''/'') (rev s))"

definition dirname :: "string \<Rightarrow> string" where
  "dirname p =
     (let head = rev (dropWhile (\<lambda>c. c \<noteq> CHR ''/'') (rev p))
      in if head \<noteq> [] \<and> \<not> list_all (\<lambda>c. c = CHR ''/'') head then rstrip_slash head else head)"

section \<open>Writing the first settings file: \<open>init_settings\<close>\<close>

definition KEY_LENGTH :: nat where
  "KEY_LENGTH = 50"

definition b64char :: "nat \<Rightarrow> char" where
  "b64char n =
     ''ABCDEFGHIJKLMNOPQRSTUVWXYZabcdefghijklmnopqrstuvwxyz0123456789+/'' ! (n mod 64)"

fun b64encode :: "string \<Rightarrow> string" where
  "b64encode (a # b # c # rest) =
     (let x = (of_char a :: nat); y = (of_char b :: nat); z = (of_char c :: nat)
      in [b64char (x div 4), b64char ((x mod 4) * 16 + y div 16),
          b64char ((y mod 16) * 4 + z div 64), b64char (z mod 64)]) @ b64encode rest"
| "b64encode [a, b] =
     (let x = (of_char a :: nat); y = (of_char b :: nat)
      in [b64char (x div 4), b64char ((x mod 4) * 16 + y div 16),
          b64char ((y mod 16) * 4), CHR ''=''])"
| "b64encode [a] =
     (let x = (of_char a :: nat)
      in [b64char (x div 4), b64char ((x mod 4) * 16), CHR ''='', CHR ''=''])"
| "b64encode [] = []"

text \<open>
  \<open>text % context\<close> for a dictionary of strings. The model reads the two directives of a
  settings template, \<open>%(name)s\<close> and \<open>%%\<close>; the key is looked up when its closing parenthesis
  is read, and a missing key raises \<open>KeyError\<close>. Every other directive ends the model's
  formatting with \<open>ValueError\<close>.
\<close>

datatype fstate = Text | Percent | Key string | Conv string

fun format_from :: "fstate \<Rightarrow> (string \<rightharpoonup> string) \<Rightarrow> string \<Rightarrow> string res" where
  "format_from Text c [] = Inr []"
| "format_from Text c (x # xs) =
     (if x = CHR ''%'' then format_from Percent c xs
      else map_sum id ((#) x) (format_from Text c xs))"
| "format_from Percent c [] = Inl (ValueError ''incomplete format'')"
| "format_from Percent c (x # xs) =
     (if x = CHR ''%'' then map_sum id ((#) x) (format_from Text c xs)
      else if x = CHR ''('' then format_from (Key []) c xs
      else Inl (ValueError ''unsupported format character''))"
| "format_from (Key k) c [] = Inl (ValueError ''incomplete format key'')"
| "format_from (Key k) c (x # xs) =
     (if x = CHR '')'' then
        (case c k of None \<Rightarrow> Inl (KeyError k) | Some v \<Rightarrow> format_from (Conv v) c xs)
      else if x = CHR ''('' then Inl (ValueError ''unsupported format character'')
      else format_from (Key (k @ [x])) c xs)"
| "format_from (Conv v) c [] = Inl (ValueError ''incomplete format'')"
| "format_from (Conv v) c (x # xs) =
     (if x = CHR ''s'' then map_sum id ((@) v) (format_from Text c xs)
      else Inl (ValueError ''unsupported format character''))"

definition py_format :: "string \<Rightarrow> (string \<rightharpoonup> string) \<Rightarrow> string res" where
  "py_format text c = format_from Text c text"

text \<open>Lines 63 to 65: the directory of the target is created when it is missing.\<close>

definition ensure_dirname :: "string \<Rightarrow> world \<Rightarrow> unit res \<times> world" where
  "ensure_dirname settings_filepath w =
     (let dirname = dirname settings_filepath
      in if dirname \<noteq> [] then
           (case path_exists dirname w of
              (ex, w1) \<Rightarrow> if \<not> ex then makedirs dirname w1 else (Inr (), w1))
         else (Inr (), w))"

text \<open>
  Lines 67 to 75: the five database values as they are put into the template, in the order
  name, user, password, host, port.
\<close>

definition db_values ::
  "string \<Rightarrow> string \<Rightarrow> string \<Rightarrow> string \<Rightarrow> string \<Rightarrow> string \<Rightarrow>
   string \<times> string \<times> string \<times> string \<times> string" where
  "db_values db db_name db_user db_password db_host db_port =
     (if db = ''sqlite'' then
        (''working_path('' @ quoted (or_else db_name ''dbs/pootle.db'') @ '')'',
         quoted [], quoted [], quoted [], quoted [])
      else
        (quoted (or_else db_name ''pootledb''), quoted (or_else db_user ''pootle''),
         quoted db_password, quoted db_host, quoted db_port))"

text \<open>Lines 77 to 81: a database kind that is not a key of the dictionary raises \<open>KeyError\<close>.\<close>

definition db_module :: "string \<Rightarrow> string res" where
  "db_module db =
     (case map_of [(''sqlite'', ''sqlite3''), (''mysql'', ''mysql''),
                   (''postgresql'', ''postgresql_psycopg2'')] db of
        None \<Rightarrow> Inl (KeyError db)
      | Some m \<Rightarrow> Inr m)"

text \<open>Lines 83 to 92, with the random bytes of the key as an argument.\<close>

definition settings_context ::
  "string \<Rightarrow> string \<Rightarrow> string \<times> string \<times> string \<times> string \<times> string \<Rightarrow> (string \<rightharpoonup> string)" where
  "settings_context random_bytes module vals =
     (case vals of (db_name, db_user, db_password, db_host, db_port) \<Rightarrow>
        [''default_key'' \<mapsto> quoted (b64encode random_bytes),
         ''db_engine'' \<mapsto> quoted (''transaction_hooks.backends.'' @ module),
         ''db_name'' \<mapsto> db_name,
         ''db_user'' \<mapsto> db_user,
         ''db_password'' \<mapsto> db_password,
         ''db_host'' \<mapsto> db_host,
         ''db_port'' \<mapsto> db_port])"

text \<open>
  Lines 94 to 96: the target is opened for writing (and emptied) first, then the template is
  opened and read, the text is formatted, and the result is written.
\<close>

definition write_settings ::
  "string \<Rightarrow> string \<Rightarrow> (string \<rightharpoonup> string) \<Rightarrow> world \<Rightarrow> unit res \<times> world" where
  "write_settings settings_filepath template_filename ctx w =
     (case open_w settings_filepath w of
        (Inl e, w1) \<Rightarrow> (Inl e, w1)
      | (Inr _, w1) \<Rightarrow>
          (case open_r template_filename w1 of
             (Inl e, w2) \<Rightarrow> (Inl e, w2)
           | (Inr _, w2) \<Rightarrow>
               (case read_all template_filename w2 of
                  (Inl e, w3) \<Rightarrow> (Inl e, w3)
                | (Inr text, w3) \<Rightarrow>
                    (case py_format text ctx of
                       Inl e \<Rightarrow> (Inl e, w3)
                     | Inr out \<Rightarrow> write_all settings_filepath out w3))))"

definition init_settings ::
  "string \<Rightarrow> string \<Rightarrow> string \<Rightarrow> string \<Rightarrow> string \<Rightarrow> string \<Rightarrow> string \<Rightarrow> string \<Rightarrow>
   world \<Rightarrow> unit res \<times> world" where
  "init_settings settings_filepath template_filename db db_name db_user db_password db_host
     db_port w =
     (case ensure_dirname settings_filepath w of
        (Inl e, w1) \<Rightarrow> (Inl e, w1)
      | (Inr _, w1) \<Rightarrow>
          (let vals = db_values db db_name db_user db_password db_host db_port
           in case db_module db of
                Inl e \<Rightarrow> (Inl e, w1)
              | Inr module \<Rightarrow>
                  write_settings settings_filepath template_filename
                    (settings_context (urandom w1 KEY_LENGTH) module vals) w1))"

section \<open>The command \<open>init\<close>: \<open>init_command\<close>\<close>

text \<open>
  The namespace that \<open>parse_known_args\<close> returns. Its attributes are the options registered on
  the parser: \<open>--config\<close>, \<open>--noinput\<close> and \<open>--no-rq\<close> by \<open>run_app\<close>, and \<open>--db\<close>, \<open>--db-name\<close>,
  \<open>--db-user\<close>, \<open>--db-host\<close> and \<open>--db-port\<close> by \<open>init_command\<close>. No option for a password is
  registered, so the namespace has no such attribute; an argument the parser does not know is
  left in the remainder, which \<open>init_command\<close> does not read.
\<close>

record args =
  config :: string
  noinput :: bool
  no_rq :: bool
  db :: string
  db_name :: string
  db_user :: string
  db_host :: string
  db_port :: string

text \<open>Lines 130 to 139: the target exists already.\<close>

definition confirm_overwrite :: "string \<Rightarrow> args \<Rightarrow> world \<Rightarrow> unit res \<times> world" where
  "confirm_overwrite config_path a w =
     (case path_exists config_path w of
        (ex, w1) \<Rightarrow>
          if ex then
            (case (if noinput a then (Inr ''n'', w1)
                   else (case input (''File already exists at '' @ repr config_path @
                                     '', overwrite? [Ny] '') w1 of
                           (r, w2) \<Rightarrow> (map_sum id lower r, w2))) of
               (Inl e, w2) \<Rightarrow> (Inl e, w2)
             | (Inr resp, w2) \<Rightarrow>
                 if resp \<notin> set [''y'', ''yes'']
                 then (Inl (SystemExit 2), print ''File already exists, not overwriting.'' w2)
                 else (Inr (), w2))
          else (Inr (), w1))"

definition unrecognised_database :: "string \<Rightarrow> string" where
  "unrecognised_database d =
     ''Unrecognised database '' @ quoted d @ '': should be one of '' @ quoted ''sqlite'' @
     '', '' @ quoted ''mysql'' @ '' or '' @ quoted ''postgresql''"

definition unable_to_write :: "string \<Rightarrow> string" where
  "unable_to_write config_path = ''Unable to write default settings file to '' @ repr config_path"

definition created_message :: "string \<Rightarrow> string \<Rightarrow> string" where
  "created_message d config_path =
     (if d \<in> set [''mysql'', ''postgresql'']
      then ''Configuration file created at '' @ repr config_path @
           ''. Your database password is not currently set . You may want to update the '' @
           ''database settings now''
      else ''Configuration file created at '' @ repr config_path)"

text \<open>
  \<open>init_command\<close> after the parser has run. \<open>init_settings\<close> is called with the keywords \<open>db\<close>,
  \<open>db_name\<close>, \<open>db_user\<close>, \<open>db_host\<close> and \<open>db_port\<close>; \<open>db_password\<close> keeps its default, the empty
  string. An \<open>IOError\<close> or \<open>OSError\<close> is replaced by a new exception of the same class whose
  one argument is the message; any other exception passes.
\<close>

definition init_command :: "string \<Rightarrow> args \<Rightarrow> world \<Rightarrow> unit res \<times> world" where
  "init_command settings_template a w =
     (let config_path = expanduser w (config a)
      in case confirm_overwrite config_path a w of
           (Inl e, w1) \<Rightarrow> (Inl e, w1)
         | (Inr _, w1) \<Rightarrow>
             if db a \<notin> set [''mysql'', ''postgresql'', ''sqlite'']
             then (Inl (CommandError (unrecognised_database (db a))), w1)
             else
               (case init_settings config_path settings_template (db a) (db_name a) (db_user a)
                       [] (db_host a) (db_port a) w1 of
                  (Inl (EnvironmentError cls _), w2) \<Rightarrow>
                    (Inl (EnvironmentError cls (Message (unable_to_write config_path))), w2)
                | (Inl e, w2) \<Rightarrow> (Inl e, w2)
                | (Inr _, w2) \<Rightarrow> (Inr (), print (created_message (db a) config_path) w2)))"

section \<open>Finding the settings: \<open>configure_app\<close>\<close>

text \<open>\<open>dict.setdefault\<close>\<close>

definition setdefault :: "(string \<rightharpoonup> string) \<Rightarrow> string \<Rightarrow> string \<Rightarrow> (string \<rightharpoonup> string)" where
  "setdefault m k v = (case m k of None \<Rightarrow> m(k \<mapsto> v) | Some _ \<Rightarrow> m)"

text \<open>The truth value of \<open>os.environ.get(k, None)\<close>: \<open>None\<close> and the empty string are false.\<close>

definition environ_truthy :: "(string \<rightharpoonup> string) \<Rightarrow> string \<Rightarrow> bool" where
  "environ_truthy m k = (case m k of None \<Rightarrow> False | Some v \<Rightarrow> v \<noteq> [])"

definition config_missing :: "string \<Rightarrow> string \<Rightarrow> string \<Rightarrow> string" where
  "config_missing config_path settings_envvar runner_name =
     ''Configuration file does not exist at '' @ repr config_path @ '' or '' @
     repr settings_envvar @ '' environment variable has not been set.'' @ [CHR 0x0A] @
     ''Use '' @ quoted (runner_name @ '' init'') @ '' to initialize the configuration file.''"

definition configure_app ::
  "string \<Rightarrow> string \<Rightarrow> string \<Rightarrow> string \<Rightarrow> world \<Rightarrow> unit res \<times> world" where
  "configure_app project config_path django_settings_module runner_name w =
     (let settings_envvar = upper project @ ''_SETTINGS'';
          config_path = normpath w (abspath w (expanduser w config_path))
      in case path_exists config_path w of
           (ex, w1) \<Rightarrow>
             if \<not> (ex \<or> environ_truthy (environ w1) settings_envvar)
             then (Inl (SystemExit 2),
                   print (config_missing config_path settings_envvar runner_name) w1)
             else (Inr (),
                   w1\<lparr>environ :=
                        setdefault (setdefault (environ w1) settings_envvar config_path)
                          ''DJANGO_SETTINGS_MODULE'' django_settings_module\<rparr>))"

section \<open>A concrete process\<close>

text \<open>
  A world with one template, one queue in asynchronous mode, live workers, an empty
  environment and the answer \<open>n\<close> waiting on standard input; and the namespace of
  \<open>pootle init --db=mysql --config=/etc/pootle/pootle.conf\<close>. The properties below are
  evaluated on them.
\<close>

definition demo_world :: world where
  "demo_world =
     \<lparr>fs = [''/srv/pootle/90-local.conf.template'' \<mapsto>
              File ''NAME = %(db_name)s; USER = %(db_user)s; PASSWORD = %(db_password)s''],
      environ = Map.empty, stdin = [''n''], trace = [],
      RQ_QUEUES = [(''default'', [''ASYNC'' \<mapsto> PyBool True, ''DB'' \<mapsto> PyInt 2])],
      rq_workers_are_running = True, fault = (\<lambda>_. None),
      urandom = (\<lambda>n. replicate n (CHR ''M'')),
      expanduser = (\<lambda>p. p), abspath = (\<lambda>p. p), normpath = (\<lambda>p. p)\<rparr>"

definition demo_args :: args where
  "demo_args =
     \<lparr>config = ''/etc/pootle/pootle.conf'', noinput = False, no_rq = False, db = ''mysql'',
      db_name = [], db_user = [], db_host = [], db_port = []\<rparr>"

definition demo_template :: string where
  "demo_template = ''/srv/pootle/90-local.conf.template''"

definition installed_world :: world where
  "installed_world =
     demo_world\<lparr>fs := (fs demo_world)(''/etc/pootle/pootle.conf'' \<mapsto> File ''SECRET_KEY = 1'')\<rparr>"

definition readonly_world :: world where
  "readonly_world =
     demo_world\<lparr>fault := (\<lambda>e. if e = OpenW ''/etc/pootle/pootle.conf''
                                then Some (13, ''Permission denied'') else None)\<rparr>"

definition bare_world :: world where
  "bare_world = demo_world\<lparr>fs := Map.empty\<rparr>"

section \<open>Properties of \<open>set_sync_mode\<close>\<close>

lemma set_async_false_sync:
  "(n, q) \<in> set (set_async_false qs) \<Longrightarrow> q ''ASYNC'' = Some (PyBool False)"
  by (induction qs rule: set_async_false.induct) auto

lemma set_async_false_names: "map fst (set_async_false qs) = map fst qs"
  by (induction qs rule: set_async_false.induct) auto

text \<open>
  C4. Workers are live, \<open>noinput\<close> is false and the line read at the prompt is neither \<open>y\<close> nor
  \<open>yes\<close>: \<open>set_sync_mode\<close> leaves with \<open>SystemExit 2\<close>, and the world it leaves differs from
  the one it found only by the line read and by the prompt and the message in the trace; in
  particular no queue is changed.
\<close>

theorem set_sync_mode_declined:
  assumes "rq_workers_are_running w" and "stdin w = resp # rest"
    and "resp \<noteq> ''y''" and "resp \<noteq> ''yes''"
  shows "set_sync_mode False w =
           (Inl (SystemExit 2),
            w\<lparr>stdin := rest,
              trace := trace w @ [Input (redis_warning @ ''Do you wish to proceed? [Ny] ''),
                                  Output ''RQ workers running, not proceeding.'']\<rparr>)
         \<and> RQ_QUEUES (snd (set_sync_mode False w)) = RQ_QUEUES w"
  using assms by (simp add: set_sync_mode_def input_def log_def print_def)

theorem set_sync_mode_declined_witness:
  "rq_workers_are_running demo_world \<and> stdin demo_world = ''n'' # [] \<and>
   fst (set_sync_mode False demo_world) = Inl (SystemExit 2) \<and>
   map (\<lambda>(n, q). (n, q ''ASYNC'')) (RQ_QUEUES (snd (set_sync_mode False demo_world))) =
     [(''default'', Some (PyBool True))]"
  using set_sync_mode_declined [of demo_world "''n''" "[]"]
  by (simp add: demo_world_def)

text \<open>
  C5. With \<open>noinput\<close> true \<open>set_sync_mode\<close> returns normally whatever the probe answers: every
  queue of the new world has \<open>ASYNC\<close> false, the queues keep their names, nothing is read from
  standard input, and the trace grows by the warning alone when workers are live (so by no
  prompt) and by nothing otherwise. The warning is the line printed at line 172: \<open>Warning: \<close>
  and the text of lines 166 to 170.
\<close>

theorem set_sync_mode_noinput:
  "fst (set_sync_mode True w) = Inr () \<and>
   (\<forall>(n, q) \<in> set (RQ_QUEUES (snd (set_sync_mode True w))). q ''ASYNC'' = Some (PyBool False)) \<and>
   map fst (RQ_QUEUES (snd (set_sync_mode True w))) = map fst (RQ_QUEUES w) \<and>
   stdin (snd (set_sync_mode True w)) = stdin w \<and>
   trace (snd (set_sync_mode True w)) =
     trace w @
     (if rq_workers_are_running w
      then [Output (''Warning: '' @ [CHR 0x0A] @ ''You currently have RQ workers running.'' @
                  [CHR 0x0A, CHR 0x0A] @
                  ''Running in synchronous mode may conflict with jobs that are dispatched '' @
                  ''to your workers.'' @ [CHR 0x0A, CHR 0x0A] @
                  ''It is safer to stop any workers before using synchronous commands.'' @
                  [CHR 0x0A, CHR 0x0A])]
      else [])"
  by (auto simp: set_sync_mode_def update_queues_def print_def log_def set_async_false_names
      redis_warning_def dest: set_async_false_sync)

theorem set_sync_mode_noinput_witness:
  "rq_workers_are_running demo_world \<and>
   fst (set_sync_mode True demo_world) = Inr () \<and>
   map (\<lambda>(n, q). (n, q ''ASYNC'')) (RQ_QUEUES (snd (set_sync_mode True demo_world))) =
     [(''default'', Some (PyBool False))] \<and>
   trace (snd (set_sync_mode True demo_world)) =
     [Output (''Warning: '' @ [CHR 0x0A] @ ''You currently have RQ workers running.'' @
                  [CHR 0x0A, CHR 0x0A] @
                  ''Running in synchronous mode may conflict with jobs that are dispatched '' @
                  ''to your workers.'' @ [CHR 0x0A, CHR 0x0A] @
                  ''It is safer to stop any workers before using synchronous commands.'' @
                  [CHR 0x0A, CHR 0x0A])]"
  using set_sync_mode_noinput [of demo_world]
  by (simp add: demo_world_def set_sync_mode_def update_queues_def print_def log_def
      redis_warning_def)

text \<open>
  C10. When the probe reports no live workers, \<open>set_sync_mode\<close> returns normally for either
  value of \<open>noinput\<close>, and the new world is the old one with \<open>ASYNC\<close> false in every queue:
  the trace is unchanged (no prompt, no warning) and nothing is read from standard input.
\<close>

theorem set_sync_mode_no_workers:
  assumes "\<not> rq_workers_are_running w"
  shows "set_sync_mode ni w = (Inr (), w\<lparr>RQ_QUEUES := set_async_false (RQ_QUEUES w)\<rparr>) \<and>
         (\<forall>(n, q) \<in> set (RQ_QUEUES (snd (set_sync_mode ni w))). q ''ASYNC'' = Some (PyBool False)) \<and>
         map fst (RQ_QUEUES (snd (set_sync_mode ni w))) = map fst (RQ_QUEUES w) \<and>
         trace (snd (set_sync_mode ni w)) = trace w \<and>
         stdin (snd (set_sync_mode ni w)) = stdin w"
  using assms
  by (auto simp: set_sync_mode_def update_queues_def set_async_false_names
      dest: set_async_false_sync)

theorem set_sync_mode_no_workers_witness:
  "\<not> rq_workers_are_running (demo_world\<lparr>rq_workers_are_running := False\<rparr>) \<and>
   fst (set_sync_mode False (demo_world\<lparr>rq_workers_are_running := False\<rparr>)) = Inr () \<and>
   map (\<lambda>(n, q). (n, q ''ASYNC''))
     (RQ_QUEUES (snd (set_sync_mode False (demo_world\<lparr>rq_workers_are_running := False\<rparr>)))) =
     [(''default'', Some (PyBool False))] \<and>
   trace (snd (set_sync_mode False (demo_world\<lparr>rq_workers_are_running := False\<rparr>))) = []"
  using set_sync_mode_no_workers [of "demo_world\<lparr>rq_workers_are_running := False\<rparr>" False]
  by (simp add: demo_world_def)

section \<open>Properties of \<open>configure_app\<close>\<close>

lemma upper_pootle: "upper ''pootle'' = ''POOTLE''"
  by code_simp

lemma settings_envvar_not_module:
  "upper project @ ''_SETTINGS'' \<noteq> ''DJANGO_SETTINGS_MODULE''"
proof
  assume "upper project @ ''_SETTINGS'' = ''DJANGO_SETTINGS_MODULE''"
  then have "last (upper project @ ''_SETTINGS'') = last ''DJANGO_SETTINGS_MODULE''"
    by (rule arg_cong)
  then show False by simp
qed

text \<open>
  C3, as the specification states it, fails: with no file at the path and the variable
  \<open>POOTLE_SETTINGS\<close> set, to the empty string, \<open>configure_app\<close> leaves with \<open>SystemExit 2\<close>.
\<close>

theorem configure_app_empty_envvar_counterexample:
  "environ (demo_world\<lparr>environ := [''POOTLE_SETTINGS'' \<mapsto> []]\<rparr>) (upper ''pootle'' @ ''_SETTINGS'')
     = Some [] \<and>
   fs (demo_world\<lparr>environ := [''POOTLE_SETTINGS'' \<mapsto> []]\<rparr>) ''/etc/pootle/pootle.conf'' = None \<and>
   fst (configure_app ''pootle'' ''/etc/pootle/pootle.conf'' ''pootle.settings'' ''pootle''
          (demo_world\<lparr>environ := [''POOTLE_SETTINGS'' \<mapsto> []]\<rparr>)) = Inl (SystemExit 2)"
  by (simp add: configure_app_def demo_world_def path_exists_def log_def print_def
      environ_truthy_def upper_pootle Let_def)

text \<open>
  C3, amended. \<open>configure_app\<close> leaves with \<open>SystemExit 2\<close> exactly when the expanded,
  normalised path does not exist and the settings variable is unset or set to the empty
  string; in every other case it returns normally.
\<close>

theorem configure_app_fails_iff:
  "fst (configure_app project config_path module runner w) =
     (if fs w (normpath w (abspath w (expanduser w config_path))) = None \<and>
         (environ w (upper project @ ''_SETTINGS'') = None \<or>
          environ w (upper project @ ''_SETTINGS'') = Some [])
      then Inl (SystemExit 2) else Inr ())"
  by (auto simp: configure_app_def path_exists_def log_def print_def environ_truthy_def Let_def
      split: option.splits)

theorem configure_app_fails_iff_witness:
  "fst (configure_app ''pootle'' ''/tmp/missing.conf'' ''pootle.settings'' ''pootle'' demo_world)
     = Inl (SystemExit 2) \<and>
   fst (configure_app ''pootle'' ''/tmp/missing.conf'' ''pootle.settings'' ''pootle''
          (demo_world\<lparr>environ := [''POOTLE_SETTINGS'' \<mapsto> ''/home/pootle/custom.conf'']\<rparr>)) = Inr ()"
  using configure_app_fails_iff [of "''pootle''" "''/tmp/missing.conf''" "''pootle.settings''"
      "''pootle''" demo_world]
    configure_app_fails_iff [of "''pootle''" "''/tmp/missing.conf''" "''pootle.settings''"
      "''pootle''" "demo_world\<lparr>environ := [''POOTLE_SETTINGS'' \<mapsto> ''/home/pootle/custom.conf'']\<rparr>"]
  by (simp add: demo_world_def upper_pootle)

text \<open>
  C8. When \<open>configure_app\<close> returns normally, every variable that had a value keeps it; a
  variable whose value differs afterwards was unset and is the settings variable or
  \<open>DJANGO_SETTINGS_MODULE\<close>; the settings variable, if it was unset, holds the resolved path,
  and \<open>DJANGO_SETTINGS_MODULE\<close>, if it was unset, holds the module given.
\<close>

theorem configure_app_keeps_environ:
  assumes "fst (configure_app project config_path module runner w) = Inr ()"
  shows "(\<forall>k v. environ w k = Some v \<longrightarrow>
            environ (snd (configure_app project config_path module runner w)) k = Some v) \<and>
         (\<forall>k. environ (snd (configure_app project config_path module runner w)) k \<noteq> environ w k \<longrightarrow>
            environ w k = None \<and>
            (k = upper project @ ''_SETTINGS'' \<or> k = ''DJANGO_SETTINGS_MODULE'')) \<and>
         (environ w (upper project @ ''_SETTINGS'') = None \<longrightarrow>
            environ (snd (configure_app project config_path module runner w))
              (upper project @ ''_SETTINGS'') =
            Some (normpath w (abspath w (expanduser w config_path)))) \<and>
         (environ w ''DJANGO_SETTINGS_MODULE'' = None \<longrightarrow>
            environ (snd (configure_app project config_path module runner w))
              ''DJANGO_SETTINGS_MODULE'' = Some module)"
  using assms settings_envvar_not_module [of project]
  by (auto simp: configure_app_def path_exists_def log_def print_def Let_def setdefault_def
      split: option.splits if_splits)

theorem configure_app_keeps_environ_witness:
  "fst (configure_app ''pootle'' ''/srv/pootle/90-local.conf.template'' ''pootle.settings'' ''pootle''
          (demo_world\<lparr>environ := [''POOTLE_SETTINGS'' \<mapsto> ''/home/pootle/custom.conf'']\<rparr>)) = Inr () \<and>
   environ (snd (configure_app ''pootle'' ''/srv/pootle/90-local.conf.template'' ''pootle.settings'' ''pootle''
          (demo_world\<lparr>environ := [''POOTLE_SETTINGS'' \<mapsto> ''/home/pootle/custom.conf'']\<rparr>)))
     ''POOTLE_SETTINGS'' = Some ''/home/pootle/custom.conf'' \<and>
   environ (snd (configure_app ''pootle'' ''/srv/pootle/90-local.conf.template'' ''pootle.settings'' ''pootle''
          (demo_world\<lparr>environ := [''POOTLE_SETTINGS'' \<mapsto> ''/home/pootle/custom.conf'']\<rparr>)))
     ''DJANGO_SETTINGS_MODULE'' = Some ''pootle.settings''"
  using configure_app_keeps_environ [of "''pootle''" "''/srv/pootle/90-local.conf.template''"
      "''pootle.settings''" "''pootle''"
      "demo_world\<lparr>environ := [''POOTLE_SETTINGS'' \<mapsto> ''/home/pootle/custom.conf'']\<rparr>"]
  by (simp add: configure_app_def demo_world_def path_exists_def log_def print_def
      environ_truthy_def upper_pootle setdefault_def Let_def)

section \<open>Properties of \<open>init_command\<close> and \<open>init_settings\<close>\<close>

lemma confirm_overwrite_eq:
  "confirm_overwrite p a w =
     (if fs w p = None then (Inr (), w\<lparr>trace := trace w @ [Stat p]\<rparr>)
      else if noinput a then
        (Inl (SystemExit 2),
         w\<lparr>trace := trace w @ [Stat p, Output ''File already exists, not overwriting.'']\<rparr>)
      else
        (case stdin w of
           [] \<Rightarrow>
             (Inl EOFError,
              w\<lparr>trace := trace w @
                 [Stat p, Input (''File already exists at '' @ repr p @ '', overwrite? [Ny] '')]\<rparr>)
         | l # ls \<Rightarrow>
             if lower l = ''y'' \<or> lower l = ''yes'' then
               (Inr (),
                w\<lparr>stdin := ls,
                  trace := trace w @
                    [Stat p, Input (''File already exists at '' @ repr p @ '', overwrite? [Ny] '')]\<rparr>)
             else
               (Inl (SystemExit 2),
                w\<lparr>stdin := ls,
                  trace := trace w @
                    [Stat p, Input (''File already exists at '' @ repr p @ '', overwrite? [Ny] ''),
                     Output ''File already exists, not overwriting.'']\<rparr>)))"
  by (simp add: confirm_overwrite_def path_exists_def input_def log_def print_def
      split: list.splits)

lemma confirm_overwrite_frame:
  "fs (snd (confirm_overwrite p a w)) = fs w"
  "urandom (snd (confirm_overwrite p a w)) = urandom w"
  "fault (snd (confirm_overwrite p a w)) = fault w"
  by (simp_all add: confirm_overwrite_eq split: list.splits)

lemma ensure_dirname_frame:
  "urandom (snd (ensure_dirname p w)) = urandom w"
  "fault (snd (ensure_dirname p w)) = fault w"
  by (simp_all add: ensure_dirname_def path_exists_def makedirs_def log_def Let_def
      split: option.splits prod.splits)

lemma ensure_dirname_fs:
  assumes "ensure_dirname p w = (Inr (), w1)"
  shows "fs w1 = fs w \<or> (fs w (dirname p) = None \<and> fs w1 = (fs w)(dirname p \<mapsto> Dir))"
  using assms
  by (auto simp: ensure_dirname_def path_exists_def makedirs_def log_def Let_def
      split: option.splits prod.splits if_splits)

lemma write_settings_success:
  assumes "write_settings p t ctx w = (Inr (), w')"
  shows "\<exists>text content.
           (if t = p then text = [] else fs w t = Some (File text)) \<and>
           py_format text ctx = Inr content \<and>
           fs w' = (fs w)(p \<mapsto> File content) \<and>
           trace w' = trace w @ [OpenW p, OpenR t, ReadAll t, WriteAll p content]"
  using assms
  by (auto simp: write_settings_def open_w_def open_r_def read_all_def write_all_def log_def
      Let_def split: option.splits prod.splits if_splits sum.splits node.splits)


lemma db_module_eq:
  "db_module d =
     (if d = ''sqlite'' then Inr ''sqlite3'' else if d = ''mysql'' then Inr ''mysql''
      else if d = ''postgresql'' then Inr ''postgresql_psycopg2'' else Inl (KeyError d))"
  by (simp add: db_module_def)

lemma init_settings_success:
  assumes "fst (init_settings p t d n u pw h po w) = Inr ()"
  shows "\<exists>m text content.
           db_module d = Inr m \<and>
           (if t = p then text = [] else fs w t = Some (File text)) \<and>
           py_format text
             (settings_context (urandom w KEY_LENGTH) m (db_values d n u pw h po)) = Inr content \<and>
           fs (snd (init_settings p t d n u pw h po w)) p = Some (File content)"
proof -
  obtain r1 w1 where e: "ensure_dirname p w = (r1, w1)"
    by (cases "ensure_dirname p w")
  with assms obtain m where r1: "r1 = Inr ()" and m: "db_module d = Inr m"
    by (auto simp: init_settings_def Let_def split: sum.splits)
  let ?ctx = "settings_context (urandom w1 KEY_LENGTH) m (db_values d n u pw h po)"
  obtain w2 where ws: "write_settings p t ?ctx w1 = (Inr (), w2)"
    and res: "init_settings p t d n u pw h po w = (Inr (), w2)"
    using assms e r1 m
    by (cases "write_settings p t ?ctx w1") (auto simp: init_settings_def Let_def)
  from write_settings_success [OF ws] obtain body content where
    tx: "if t = p then body = [] else fs w1 t = Some (File body)"
    and pf: "py_format body ?ctx = Inr content"
    and fs2: "fs w2 = (fs w1)(p \<mapsto> File content)"
    by blast
  have u: "urandom w1 = urandom w"
    using ensure_dirname_frame(1) [of p w] e by simp
  have "if t = p then body = [] else fs w t = Some (File body)"
    using tx ensure_dirname_fs [of p w w1] e r1
    by (auto split: if_splits)
  moreover have "fs (snd (init_settings p t d n u pw h po w)) p = Some (File content)"
    using res fs2 by simp
  moreover note pf [unfolded u] m
  ultimately show ?thesis
    by blast
qed

lemma init_command_after_gate:
  assumes "confirm_overwrite (expanduser w (config a)) a w = (Inr (), w1)"
    and "db a = ''sqlite'' \<or> db a = ''mysql'' \<or> db a = ''postgresql''"
    and "init_settings (expanduser w (config a)) t (db a) (db_name a) (db_user a) []
           (db_host a) (db_port a) w1 = (r, w2)"
  shows "init_command t a w =
           (case r of
              Inl (EnvironmentError cls x) \<Rightarrow>
                (Inl (EnvironmentError cls (Message (unable_to_write (expanduser w (config a))))),
                 w2)
            | Inl e \<Rightarrow> (Inl e, w2)
            | Inr _ \<Rightarrow>
                (Inr (), print (created_message (db a) (expanduser w (config a))) w2))"
  using assms by (auto simp: init_command_def Let_def split: sum.splits exn.splits)

lemma init_command_gate:
  assumes "fst (init_command t a w) = Inr ()"
  shows "fst (confirm_overwrite (expanduser w (config a)) a w) = Inr () \<and>
         (db a = ''sqlite'' \<or> db a = ''mysql'' \<or> db a = ''postgresql'')"
proof -
  obtain r1 w1 where c: "confirm_overwrite (expanduser w (config a)) a w = (r1, w1)"
    by (cases "confirm_overwrite (expanduser w (config a)) a w")
  show ?thesis
  proof (cases r1)
    case (Inl e)
    with assms c show ?thesis by (simp add: init_command_def Let_def)
  next
    case (Inr u)
    with assms c show ?thesis
      by (cases "db a \<notin> set [''mysql'', ''postgresql'', ''sqlite'']")
        (auto simp: init_command_def Let_def)
  qed
qed

lemma init_command_success:
  assumes "fst (init_command t a w) = Inr ()"
  shows "\<exists>m text content.
           db_module (db a) = Inr m \<and>
           (if t = expanduser w (config a) then text = [] else fs w t = Some (File text)) \<and>
           py_format text
             (settings_context (urandom w KEY_LENGTH) m
                (db_values (db a) (db_name a) (db_user a) [] (db_host a) (db_port a))) = Inr content \<and>
           fs (snd (init_command t a w)) (expanduser w (config a)) = Some (File content)"
proof -
  let ?p = "expanduser w (config a)"
  from init_command_gate [OF assms] obtain w1 where
    c: "confirm_overwrite ?p a w = (Inr (), w1)"
    and d: "db a = ''sqlite'' \<or> db a = ''mysql'' \<or> db a = ''postgresql''"
    by (cases "confirm_overwrite ?p a w") auto
  let ?run = "init_settings ?p t (db a) (db_name a) (db_user a) [] (db_host a) (db_port a) w1"
  obtain r w2 where run: "?run = (r, w2)"
    by (cases ?run)
  note eq = init_command_after_gate [OF c d run]
  from assms eq have r: "r = Inr ()"
    by (cases r) (auto split: exn.splits)
  have ok: "fst ?run = Inr ()"
    using run r by simp
  have fsr: "fs (snd (init_command t a w)) = fs (snd ?run)"
    using eq r run by (simp add: print_def log_def)
  have f: "fs w1 = fs w" "urandom w1 = urandom w"
    using confirm_overwrite_frame(1,2) [of ?p a w] c by simp_all
  from init_settings_success [OF ok] obtain m body content where
    "db_module (db a) = Inr m"
    "if t = ?p then body = [] else fs w1 t = Some (File body)"
    "py_format body
       (settings_context (urandom w1 KEY_LENGTH) m
          (db_values (db a) (db_name a) (db_user a) [] (db_host a) (db_port a))) = Inr content"
    "fs (snd ?run) ?p = Some (File content)"
    by blast
  then show ?thesis
    unfolding f fsr by blast
qed


lemma dirname_demo: "dirname ''/etc/pootle/pootle.conf'' = ''/etc/pootle''"
  by code_simp

lemma repr_demo: "repr ''/etc/pootle/pootle.conf'' = quoted ''/etc/pootle/pootle.conf''"
  by code_simp

text \<open>
  C6. The target exists and \<open>noinput\<close> is set: \<open>init_command\<close> leaves with \<open>SystemExit 2\<close>,
  and the world it leaves is the one it found with two events more in the trace, the test of
  the path and the message; there is no prompt, nothing is read, and the file system (the
  existing file with it) is unchanged.
\<close>

theorem init_existing_noinput:
  assumes "fs w (expanduser w (config a)) \<noteq> None" and "noinput a"
  shows "init_command t a w =
           (Inl (SystemExit 2),
            w\<lparr>trace := trace w @ [Stat (expanduser w (config a)),
                                  Output ''File already exists, not overwriting.'']\<rparr>)"
  using assms by (auto simp: init_command_def confirm_overwrite_eq Let_def)

theorem init_existing_noinput_witness:
  "fs installed_world (expanduser installed_world (config (demo_args\<lparr>noinput := True\<rparr>))) =
     Some (File ''SECRET_KEY = 1'') \<and>
   noinput (demo_args\<lparr>noinput := True\<rparr>) \<and>
   fst (init_command demo_template (demo_args\<lparr>noinput := True\<rparr>) installed_world) =
     Inl (SystemExit 2) \<and>
   fs (snd (init_command demo_template (demo_args\<lparr>noinput := True\<rparr>) installed_world))
     ''/etc/pootle/pootle.conf'' = Some (File ''SECRET_KEY = 1'') \<and>
   trace (snd (init_command demo_template (demo_args\<lparr>noinput := True\<rparr>) installed_world)) =
     [Stat ''/etc/pootle/pootle.conf'', Output ''File already exists, not overwriting.'']"
  using init_existing_noinput [of installed_world "demo_args\<lparr>noinput := True\<rparr>" demo_template]
  by (simp add: installed_world_def demo_world_def demo_args_def)

text \<open>
  C1, as the specification states it, fails: the database kind is tested after the target path
  and after the question of overwriting. With an existing target and \<open>noinput\<close>, the
  unrecognised kind \<open>oracle\<close> ends in \<open>SystemExit 2\<close>, not in \<open>CommandError\<close>, and the path
  has been tested by then.
\<close>

theorem init_unrecognised_db_counterexample:
  "db (demo_args\<lparr>db := ''oracle'', noinput := True\<rparr>) \<notin> {''sqlite'', ''mysql'', ''postgresql''} \<and>
   fst (init_command demo_template (demo_args\<lparr>db := ''oracle'', noinput := True\<rparr>) installed_world) =
     Inl (SystemExit 2) \<and>
   trace (snd (init_command demo_template (demo_args\<lparr>db := ''oracle'', noinput := True\<rparr>)
                 installed_world)) =
     [Stat ''/etc/pootle/pootle.conf'', Output ''File already exists, not overwriting.'']"
  by (simp add: installed_world_def demo_world_def demo_args_def init_command_def
      confirm_overwrite_eq Let_def)

text \<open>
  C1, amended. With a database kind outside \<open>sqlite\<close>, \<open>mysql\<close>, \<open>postgresql\<close>, \<open>init_command\<close>
  changes nothing in the file system: after the test of the target path the trace holds
  prompts and printed lines only (no directory is made, no file opened or written). The test
  of the kind comes after the test of the path and after the question of overwriting: when
  the target does not exist, or the answer to the question is \<open>y\<close> or \<open>yes\<close> in any case of
  letters, the command fails with \<open>CommandError\<close>; when the target exists and \<open>noinput\<close> is
  set or the answer is another one, it leaves with \<open>SystemExit 2\<close>; when no answer can be
  read, with \<open>EOFError\<close>.
\<close>

theorem init_unrecognised_db:
  assumes "db a \<noteq> ''sqlite''" and "db a \<noteq> ''mysql''" and "db a \<noteq> ''postgresql''"
  shows "fs (snd (init_command t a w)) = fs w \<and>
         (\<exists>evs. trace (snd (init_command t a w)) = trace w @ Stat (expanduser w (config a)) # evs \<and>
                (\<forall>e \<in> set evs. \<exists>s. e = Input s \<or> e = Output s)) \<and>
         (fs w (expanduser w (config a)) = None \<longrightarrow>
            init_command t a w =
              (Inl (CommandError (unrecognised_database (db a))),
               w\<lparr>trace := trace w @ [Stat (expanduser w (config a))]\<rparr>)) \<and>
         (fs w (expanduser w (config a)) \<noteq> None \<and> noinput a \<longrightarrow>
            fst (init_command t a w) = Inl (SystemExit 2)) \<and>
         (fs w (expanduser w (config a)) \<noteq> None \<and> \<not> noinput a \<longrightarrow>
            fst (init_command t a w) =
              (case stdin w of
                 [] \<Rightarrow> Inl EOFError
               | l # ls \<Rightarrow>
                   if lower l = ''y'' \<or> lower l = ''yes''
                   then Inl (CommandError (unrecognised_database (db a)))
                   else Inl (SystemExit 2)))"
  using assms by (auto simp: init_command_def confirm_overwrite_eq Let_def split: list.splits)

theorem init_unrecognised_db_witness:
  "db (demo_args\<lparr>db := ''oracle''\<rparr>) \<noteq> ''sqlite'' \<and> db (demo_args\<lparr>db := ''oracle''\<rparr>) \<noteq> ''mysql'' \<and>
   db (demo_args\<lparr>db := ''oracle''\<rparr>) \<noteq> ''postgresql'' \<and>
   fs demo_world (expanduser demo_world (config (demo_args\<lparr>db := ''oracle''\<rparr>))) = None \<and>
   fst (init_command demo_template (demo_args\<lparr>db := ''oracle''\<rparr>) demo_world) =
     Inl (CommandError (unrecognised_database ''oracle'')) \<and>
   trace (snd (init_command demo_template (demo_args\<lparr>db := ''oracle''\<rparr>) demo_world)) =
     [Stat ''/etc/pootle/pootle.conf''] \<and>
   fs (snd (init_command demo_template (demo_args\<lparr>db := ''oracle''\<rparr>) demo_world)) = fs demo_world"
  using init_unrecognised_db [of "demo_args\<lparr>db := ''oracle''\<rparr>" demo_template demo_world]
  by (simp add: demo_world_def demo_args_def)

lemma template_format_demo:
  "c ''db_name'' = Some n \<Longrightarrow> c ''db_user'' = Some u \<Longrightarrow> c ''db_password'' = Some pw \<Longrightarrow>
   py_format ''NAME = %(db_name)s; USER = %(db_user)s; PASSWORD = %(db_password)s'' c =
     Inr (''NAME = '' @ n @ ''; USER = '' @ u @ ''; PASSWORD = '' @ pw)"
  by (simp add: py_format_def)

text \<open>
  C7. When \<open>init_settings\<close> is called with the database kind \<open>sqlite\<close> and returns, the target
  holds the template (the text of the template file) formatted with a dictionary that does
  not depend on the user, password, host or port given: each of the four is the two
  characters \<open>''\<close> (the apostrophe is \<open>CHR 0x27\<close>), and the database name is
  \<open>working_path('\<close>, the name given (or \<open>dbs/pootle.db\<close> when the name is empty), and \<open>')\<close>, which
  is never a text between two apostrophes.
\<close>

theorem init_settings_sqlite:
  assumes "fst (init_settings p t ''sqlite'' n u pw h po w) = Inr ()"
  shows "\<exists>body content.
           (if t = p then body = [] else fs w t = Some (File body)) \<and>
           py_format body
             [''default_key'' \<mapsto> [CHR 0x27] @ b64encode (urandom w KEY_LENGTH) @ [CHR 0x27],
              ''db_engine'' \<mapsto> [CHR 0x27] @ ''transaction_hooks.backends.sqlite3'' @ [CHR 0x27],
              ''db_name'' \<mapsto>
                ''working_path('' @ [CHR 0x27] @ (if n = [] then ''dbs/pootle.db'' else n) @
                [CHR 0x27] @ '')'',
              ''db_user'' \<mapsto> [CHR 0x27, CHR 0x27],
              ''db_password'' \<mapsto> [CHR 0x27, CHR 0x27],
              ''db_host'' \<mapsto> [CHR 0x27, CHR 0x27],
              ''db_port'' \<mapsto> [CHR 0x27, CHR 0x27]] = Inr content \<and>
           fs (snd (init_settings p t ''sqlite'' n u pw h po w)) p = Some (File content) \<and>
           (\<forall>x. ''working_path('' @ [CHR 0x27] @ (if n = [] then ''dbs/pootle.db'' else n) @
                [CHR 0x27] @ '')'' \<noteq> [CHR 0x27] @ x @ [CHR 0x27])"
proof -
  from init_settings_success [OF assms] obtain m body content where
    m: "db_module ''sqlite'' = Inr m"
    and b: "if t = p then body = [] else fs w t = Some (File body)"
    and f: "py_format body
              (settings_context (urandom w KEY_LENGTH) m (db_values ''sqlite'' n u pw h po)) =
            Inr content"
    and c: "fs (snd (init_settings p t ''sqlite'' n u pw h po w)) p = Some (File content)"
    by blast
  from m have m': "m = ''sqlite3''"
    by (simp add: db_module_eq)
  have q: "\<forall>x. ''working_path('' @ [CHR 0x27] @ (if n = [] then ''dbs/pootle.db'' else n) @
                [CHR 0x27] @ '')'' \<noteq> [CHR 0x27] @ x @ [CHR 0x27]"
    by simp
  from f have "py_format body
             [''default_key'' \<mapsto> [CHR 0x27] @ b64encode (urandom w KEY_LENGTH) @ [CHR 0x27],
              ''db_engine'' \<mapsto> [CHR 0x27] @ ''transaction_hooks.backends.sqlite3'' @ [CHR 0x27],
              ''db_name'' \<mapsto>
                ''working_path('' @ [CHR 0x27] @ (if n = [] then ''dbs/pootle.db'' else n) @
                [CHR 0x27] @ '')'',
              ''db_user'' \<mapsto> [CHR 0x27, CHR 0x27],
              ''db_password'' \<mapsto> [CHR 0x27, CHR 0x27],
              ''db_host'' \<mapsto> [CHR 0x27, CHR 0x27],
              ''db_port'' \<mapsto> [CHR 0x27, CHR 0x27]] = Inr content"
    unfolding m' by (simp add: settings_context_def db_values_def or_else_def quoted_def)
  with b c q show ?thesis
    by blast
qed

lemma init_settings_demo:
  "fault w = (\<lambda>_. None) \<Longrightarrow> fs w ''/etc/pootle'' = None \<Longrightarrow>
   fs w ''/etc/pootle/pootle.conf'' = None \<Longrightarrow>
   fs w demo_template =
     Some (File ''NAME = %(db_name)s; USER = %(db_user)s; PASSWORD = %(db_password)s'') \<Longrightarrow>
   db_module d = Inr m \<Longrightarrow> db_values d n u pw h po = (vn, vu, vp, vh, vo) \<Longrightarrow>
   fst (init_settings ''/etc/pootle/pootle.conf'' demo_template d n u pw h po w) = Inr () \<and>
   fs (snd (init_settings ''/etc/pootle/pootle.conf'' demo_template d n u pw h po w))
     ''/etc/pootle/pootle.conf'' =
     Some (File (''NAME = '' @ vn @ ''; USER = '' @ vu @ ''; PASSWORD = '' @ vp))"
  by (simp add: init_settings_def ensure_dirname_def dirname_demo path_exists_def makedirs_def
      write_settings_def open_w_def open_r_def read_all_def write_all_def log_def Let_def
      demo_template_def settings_context_def template_format_demo)

theorem init_settings_sqlite_witness:
  "fst (init_settings ''/etc/pootle/pootle.conf'' demo_template ''sqlite'' [] ''admin'' ''hunter2''
          ''db.example.org'' ''5432'' demo_world) = Inr () \<and>
   fs (snd (init_settings ''/etc/pootle/pootle.conf'' demo_template ''sqlite'' [] ''admin''
              ''hunter2'' ''db.example.org'' ''5432'' demo_world)) ''/etc/pootle/pootle.conf'' =
     Some (File (''NAME = working_path('' @ [CHR 0x27] @ ''dbs/pootle.db'' @ [CHR 0x27] @
                 ''); USER = '' @ [CHR 0x27, CHR 0x27] @
                 ''; PASSWORD = '' @ [CHR 0x27, CHR 0x27]))"
  using init_settings_sqlite [of "''/etc/pootle/pootle.conf''" demo_template "[]" "''admin''"
      "''hunter2''" "''db.example.org''" "''5432''" demo_world]
    init_settings_demo [of demo_world "''sqlite''" "''sqlite3''" "[]" "''admin''" "''hunter2''"
      "''db.example.org''" "''5432''"
      "''working_path('' @ [CHR 0x27] @ ''dbs/pootle.db'' @ [CHR 0x27] @ '')''"
      "[CHR 0x27, CHR 0x27]" "[CHR 0x27, CHR 0x27]" "[CHR 0x27, CHR 0x27]"
      "[CHR 0x27, CHR 0x27]"]
  by (simp add: demo_world_def demo_template_def db_module_eq db_values_def or_else_def
      quoted_def)

text \<open>
  C9. The namespace of \<open>init\<close> has no attribute for a password and \<open>init_command\<close> passes
  none to \<open>init_settings\<close>. So whenever \<open>init_command\<close> returns for the kind \<open>mysql\<close> or
  \<open>postgresql\<close>, whatever the arguments, the target holds the template formatted with a
  dictionary in which \<open>db_password\<close> is the two characters \<open>''\<close> (the apostrophe is
  \<open>CHR 0x27\<close>); the other four values are the name (or \<open>pootledb\<close>), the user (or \<open>pootle\<close>),
  the host and the port, each between two apostrophes.
\<close>

theorem init_command_password_empty:
  assumes "db a = ''mysql'' \<or> db a = ''postgresql''"
    and "fst (init_command t a w) = Inr ()"
  shows "\<exists>body content.
           (if t = expanduser w (config a) then body = [] else fs w t = Some (File body)) \<and>
           py_format body
             [''default_key'' \<mapsto> [CHR 0x27] @ b64encode (urandom w KEY_LENGTH) @ [CHR 0x27],
              ''db_engine'' \<mapsto>
                [CHR 0x27] @ ''transaction_hooks.backends.'' @
                (if db a = ''mysql'' then ''mysql'' else ''postgresql_psycopg2'') @ [CHR 0x27],
              ''db_name'' \<mapsto>
                [CHR 0x27] @ (if db_name a = [] then ''pootledb'' else db_name a) @ [CHR 0x27],
              ''db_user'' \<mapsto>
                [CHR 0x27] @ (if db_user a = [] then ''pootle'' else db_user a) @ [CHR 0x27],
              ''db_password'' \<mapsto> [CHR 0x27, CHR 0x27],
              ''db_host'' \<mapsto> [CHR 0x27] @ db_host a @ [CHR 0x27],
              ''db_port'' \<mapsto> [CHR 0x27] @ db_port a @ [CHR 0x27]] = Inr content \<and>
           fs (snd (init_command t a w)) (expanduser w (config a)) = Some (File content)"
proof -
  from init_command_success [OF assms(2)] obtain m body content where
    m: "db_module (db a) = Inr m"
    and b: "if t = expanduser w (config a) then body = [] else fs w t = Some (File body)"
    and f: "py_format body
              (settings_context (urandom w KEY_LENGTH) m
                 (db_values (db a) (db_name a) (db_user a) [] (db_host a) (db_port a))) =
            Inr content"
    and c: "fs (snd (init_command t a w)) (expanduser w (config a)) = Some (File content)"
    by blast
  from m assms(1) have m': "m = (if db a = ''mysql'' then ''mysql'' else ''postgresql_psycopg2'')"
    by (auto simp: db_module_eq)
  from f assms(1) have "py_format body
             [''default_key'' \<mapsto> [CHR 0x27] @ b64encode (urandom w KEY_LENGTH) @ [CHR 0x27],
              ''db_engine'' \<mapsto>
                [CHR 0x27] @ ''transaction_hooks.backends.'' @
                (if db a = ''mysql'' then ''mysql'' else ''postgresql_psycopg2'') @ [CHR 0x27],
              ''db_name'' \<mapsto>
                [CHR 0x27] @ (if db_name a = [] then ''pootledb'' else db_name a) @ [CHR 0x27],
              ''db_user'' \<mapsto>
                [CHR 0x27] @ (if db_user a = [] then ''pootle'' else db_user a) @ [CHR 0x27],
              ''db_password'' \<mapsto> [CHR 0x27, CHR 0x27],
              ''db_host'' \<mapsto> [CHR 0x27] @ db_host a @ [CHR 0x27],
              ''db_port'' \<mapsto> [CHR 0x27] @ db_port a @ [CHR 0x27]] = Inr content"
    unfolding m' by (auto simp: settings_context_def db_values_def or_else_def quoted_def)
  with b c show ?thesis
    by blast
qed

lemma init_command_demo:
  "fst (init_command demo_template demo_args demo_world) = Inr () \<and>
   fs (snd (init_command demo_template demo_args demo_world)) ''/etc/pootle/pootle.conf'' =
     Some (File (''NAME = '' @ [CHR 0x27] @ ''pootledb'' @ [CHR 0x27] @
                 ''; USER = '' @ [CHR 0x27] @ ''pootle'' @ [CHR 0x27] @
                 ''; PASSWORD = '' @ [CHR 0x27, CHR 0x27]))"
proof -
  let ?w1 = "demo_world\<lparr>trace := [Stat ''/etc/pootle/pootle.conf'']\<rparr>"
  have c: "confirm_overwrite (expanduser demo_world (config demo_args)) demo_args demo_world =
             (Inr (), ?w1)"
    by (simp add: confirm_overwrite_eq demo_world_def demo_args_def)
  have d: "db demo_args = ''sqlite'' \<or> db demo_args = ''mysql'' \<or> db demo_args = ''postgresql''"
    by (simp add: demo_args_def)
  have p: "expanduser demo_world (config demo_args) = ''/etc/pootle/pootle.conf''"
    by (simp add: demo_world_def demo_args_def)
  let ?run = "init_settings ''/etc/pootle/pootle.conf'' demo_template ''mysql'' [] [] [] [] [] ?w1"
  have s: "fst ?run = Inr () \<and>
           fs (snd ?run) ''/etc/pootle/pootle.conf'' =
             Some (File (''NAME = '' @ ([CHR 0x27] @ ''pootledb'' @ [CHR 0x27]) @
                         ''; USER = '' @ ([CHR 0x27] @ ''pootle'' @ [CHR 0x27]) @
                         ''; PASSWORD = '' @ [CHR 0x27, CHR 0x27]))"
    by (rule init_settings_demo [where m = "''mysql''" and vh = "[CHR 0x27, CHR 0x27]"
          and vo = "[CHR 0x27, CHR 0x27]"])
      (simp_all add: demo_world_def demo_template_def db_module_eq db_values_def or_else_def
        quoted_def)
  obtain r w2 where run: "?run = (r, w2)"
    by (cases ?run)
  have run': "init_settings (expanduser demo_world (config demo_args)) demo_template
                (db demo_args) (db_name demo_args) (db_user demo_args) [] (db_host demo_args)
                (db_port demo_args) ?w1 = (r, w2)"
    using run by (simp add: p) (simp add: demo_args_def)
  from init_command_after_gate [OF c d run'] s run show ?thesis
    by (simp add: print_def log_def)
qed

theorem init_command_password_empty_witness:
  "(db demo_args = ''mysql'' \<or> db demo_args = ''postgresql'') \<and>
   fst (init_command demo_template demo_args demo_world) = Inr () \<and>
   fs (snd (init_command demo_template demo_args demo_world)) ''/etc/pootle/pootle.conf'' =
     Some (File (''NAME = '' @ [CHR 0x27] @ ''pootledb'' @ [CHR 0x27] @
                 ''; USER = '' @ [CHR 0x27] @ ''pootle'' @ [CHR 0x27] @
                 ''; PASSWORD = '' @ [CHR 0x27, CHR 0x27]))"
  using init_command_password_empty [of demo_args demo_template demo_world] init_command_demo
  by (simp add: demo_args_def)

lemma init_settings_readonly:
  "init_settings ''/etc/pootle/pootle.conf'' demo_template ''mysql'' [] [] [] [] []
     (readonly_world\<lparr>trace := tr\<rparr>) =
   (Inl (EnvironmentError IOError
           (OsFailure 13 ''Permission denied'' ''/etc/pootle/pootle.conf'')),
    readonly_world\<lparr>trace := tr @ [Stat ''/etc/pootle'', Mkdirs ''/etc/pootle'',
                                    OpenW ''/etc/pootle/pootle.conf''],
                   fs := (fs readonly_world)(''/etc/pootle'' \<mapsto> Dir)\<rparr>)"
  by (simp add: init_settings_def ensure_dirname_def dirname_demo path_exists_def makedirs_def
      write_settings_def open_w_def log_def Let_def db_module_eq
      readonly_world_def demo_world_def)

lemma init_settings_bare:
  "init_settings ''/etc/pootle/pootle.conf'' demo_template ''mysql'' [] [] [] [] []
     (bare_world\<lparr>trace := tr\<rparr>) =
   (Inl (EnvironmentError IOError
           (OsFailure 2 ''No such file or directory'' demo_template)),
    bare_world\<lparr>trace := tr @ [Stat ''/etc/pootle'', Mkdirs ''/etc/pootle'',
                                OpenW ''/etc/pootle/pootle.conf'', OpenR demo_template],
                fs := [''/etc/pootle'' \<mapsto> Dir, ''/etc/pootle/pootle.conf'' \<mapsto> File []]\<rparr>)"
  by (simp add: init_settings_def ensure_dirname_def dirname_demo path_exists_def makedirs_def
      write_settings_def open_w_def open_r_def log_def Let_def db_module_eq
      bare_world_def demo_world_def demo_template_def)

lemma init_command_readonly:
  "fst (init_command demo_template demo_args readonly_world) =
     Inl (EnvironmentError IOError (Message (unable_to_write ''/etc/pootle/pootle.conf'')))"
  using init_settings_readonly [of "[Stat ''/etc/pootle/pootle.conf'']"]
  by (simp add: init_command_def confirm_overwrite_eq Let_def demo_args_def)
    (simp add: readonly_world_def demo_world_def)

lemma init_command_bare:
  "fst (init_command demo_template demo_args bare_world) =
     Inl (EnvironmentError IOError (Message (unable_to_write ''/etc/pootle/pootle.conf'')))"
  using init_settings_bare [of "[Stat ''/etc/pootle/pootle.conf'']"]
  by (simp add: init_command_def confirm_overwrite_eq Let_def demo_args_def)
    (simp add: bare_world_def demo_world_def)

text \<open>
  C2, as the specification states it, fails: the exception that leaves \<open>init_command\<close> is
  built from the class of the original and a message, and carries nothing else of the
  original. A target that may not be opened (error 13 on the target) and a template that does
  not exist (error 2 on the template) surface as one and the same exception.
\<close>

theorem init_command_cause_lost_counterexample:
  "fst (init_settings ''/etc/pootle/pootle.conf'' demo_template ''mysql'' [] [] [] [] []
          (readonly_world\<lparr>trace := [Stat ''/etc/pootle/pootle.conf'']\<rparr>)) =
     Inl (EnvironmentError IOError
            (OsFailure 13 ''Permission denied'' ''/etc/pootle/pootle.conf'')) \<and>
   fst (init_settings ''/etc/pootle/pootle.conf'' demo_template ''mysql'' [] [] [] [] []
          (bare_world\<lparr>trace := [Stat ''/etc/pootle/pootle.conf'']\<rparr>)) =
     Inl (EnvironmentError IOError
            (OsFailure 2 ''No such file or directory'' ''/srv/pootle/90-local.conf.template'')) \<and>
   fst (init_command demo_template demo_args readonly_world) =
     Inl (EnvironmentError IOError
            (Message (''Unable to write default settings file to '' @
                      quoted ''/etc/pootle/pootle.conf''))) \<and>
   fst (init_command demo_template demo_args bare_world) =
     fst (init_command demo_template demo_args readonly_world)"
proof -
  have "demo_template = ''/srv/pootle/90-local.conf.template''"
    by (simp add: demo_template_def)
  then show ?thesis
    using init_settings_readonly [of "[Stat ''/etc/pootle/pootle.conf'']"]
      init_settings_bare [of "[Stat ''/etc/pootle/pootle.conf'']"]
    by (simp add: init_command_readonly init_command_bare unable_to_write_def repr_demo)
qed

text \<open>
  C2, amended. When the target may be written (it does not exist, or the overwrite has been
  confirmed), the database kind is one of the three, and \<open>init_settings\<close> raises an \<open>IOError\<close>
  or \<open>OSError\<close>, then \<open>init_command\<close> raises an exception of the same class whose only
  argument is the message \<open>Unable to write default settings file to\<close> followed by the \<open>repr\<close>
  of the target path.
\<close>

theorem init_command_wraps_io_failure:
  assumes "confirm_overwrite (expanduser w (config a)) a w = (Inr (), w1)"
    and "db a = ''sqlite'' \<or> db a = ''mysql'' \<or> db a = ''postgresql''"
    and "fst (init_settings (expanduser w (config a)) t (db a) (db_name a) (db_user a) []
                (db_host a) (db_port a) w1) = Inl (EnvironmentError cls cause)"
  shows "fst (init_command t a w) =
           Inl (EnvironmentError cls
                  (Message (''Unable to write default settings file to '' @
                            repr (expanduser w (config a)))))"
proof -
  obtain r w2 where run:
    "init_settings (expanduser w (config a)) t (db a) (db_name a) (db_user a) []
       (db_host a) (db_port a) w1 = (r, w2)"
    by (cases "init_settings (expanduser w (config a)) t (db a) (db_name a) (db_user a) []
                 (db_host a) (db_port a) w1")
  with assms(3) have r: "r = Inl (EnvironmentError cls cause)"
    by simp
  show ?thesis
    unfolding init_command_after_gate [OF assms(1,2) run] r
    by (simp add: unable_to_write_def)
qed

theorem init_command_wraps_io_failure_witness:
  "confirm_overwrite (expanduser readonly_world (config demo_args)) demo_args readonly_world =
     (Inr (), readonly_world\<lparr>trace := [Stat ''/etc/pootle/pootle.conf'']\<rparr>) \<and>
   fst (init_settings (expanduser readonly_world (config demo_args)) demo_template (db demo_args)
          (db_name demo_args) (db_user demo_args) [] (db_host demo_args) (db_port demo_args)
          (readonly_world\<lparr>trace := [Stat ''/etc/pootle/pootle.conf'']\<rparr>)) =
     Inl (EnvironmentError IOError
            (OsFailure 13 ''Permission denied'' ''/etc/pootle/pootle.conf'')) \<and>
   fst (init_command demo_template demo_args readonly_world) =
     Inl (EnvironmentError IOError
            (Message (''Unable to write default settings file to '' @
                      quoted ''/etc/pootle/pootle.conf'')))"
proof -
  have p: "expanduser readonly_world (config demo_args) = ''/etc/pootle/pootle.conf''"
    by (simp add: readonly_world_def demo_world_def demo_args_def)
  have c: "confirm_overwrite (expanduser readonly_world (config demo_args)) demo_args
             readonly_world =
           (Inr (), readonly_world\<lparr>trace := [Stat ''/etc/pootle/pootle.conf'']\<rparr>)"
    by (simp add: confirm_overwrite_eq readonly_world_def demo_world_def demo_args_def)
  have d: "db demo_args = ''sqlite'' \<or> db demo_args = ''mysql'' \<or> db demo_args = ''postgresql''"
    by (simp add: demo_args_def)
  have f: "fst (init_settings (expanduser readonly_world (config demo_args)) demo_template
                  (db demo_args) (db_name demo_args) (db_user demo_args) []
                  (db_host demo_args) (db_port demo_args)
                  (readonly_world\<lparr>trace := [Stat ''/etc/pootle/pootle.conf'']\<rparr>)) =
           Inl (EnvironmentError IOError
                  (OsFailure 13 ''Permission denied'' ''/etc/pootle/pootle.conf''))"
    unfolding p using init_settings_readonly [of "[Stat ''/etc/pootle/pootle.conf'']"]
    by (simp add: demo_args_def)
  from init_command_wraps_io_failure [OF c d f] c f show ?thesis
    by (simp add: p repr_demo)
qed

end
